theory Spec2Isabelle
  imports Main "HOL-Library.Sublist" "HOL-Library.Word"
begin

section \<open>The sandboxed action \<open>run-bash-command-sandboxed\<close>\<close>

text \<open>
  The development embeds the \<open>run\<close> function of the action \<open>runBashCommandSandboxed\<close>, in
  the revision that has the \<open>runAsRoot\<close> property (the third copy of the action in the
  source, lines 849 to 1202 of \<open>README.md\<close>): the cleaning of the user's command, the
  composition of the script that runs in the container, the bootstrap command of the
  container, the handler of the attached stream, the supervision by a timer, and the
  \<open>catch\<close> block.

  Texts are lists of 8-bit characters. The Docker daemon and the Node runtime are not part
  of the program: what they answer is an input of the model (the records \<open>docker\<close> and
  \<open>platform\<close>), and what the program asks of them is returned as a list of calls.
  The \<open>console.log\<close> lines are left out.
\<close>

subsection \<open>Values\<close>

type_synonym byte = "8 word"

text \<open>The values that occur in the object returned by \<open>run\<close>, and that object as the list
  of its properties in the order of the object literal.\<close>

datatype jsval = JBool bool | JStr string

type_synonym jsobject = "(string \<times> jsval) list"


text \<open>An error as the \<open>catch\<close> block reads it: \<open>error.message\<close> and \<open>error.statusCode\<close>,
  each of which may be undefined.\<close>

record js_error =
  message :: "string option"
  statusCode :: "int option"

text \<open>\<open>context.propsValue\<close>, with the properties that \<open>run\<close> reads. Only \<open>command\<close> is
  required; a property that is not required may be undefined (\<open>None\<close>). \<open>timeout\<close> is a
  number of seconds, taken here as an integer.\<close>

record props =
  command :: string
  mountType :: "string option"
  mountSource :: "string option"
  mountPoint :: "string option"
  mountOptions :: "string option"
  mountUsername :: "string option"
  mountPassword :: "string option"
  dockerImage :: "string option"
  timeout :: "int option"
  runAsRoot :: "bool option"

subsection \<open>JavaScript's conversions\<close>

text \<open>A text is truthy when it is defined and not empty.\<close>

definition truthy :: "string option \<Rightarrow> bool" where
  "truthy s = (case s of None \<Rightarrow> False | Some t \<Rightarrow> t \<noteq> [])"

text \<open>\<open>a || b\<close> on texts.\<close>

definition or_default :: "string option \<Rightarrow> string \<Rightarrow> string" where
  "or_default a b = (case a of None \<Rightarrow> b | Some t \<Rightarrow> if t = [] then b else t)"

text \<open>The interpolation of a value in a template literal: undefined is written out.\<close>

definition interp :: "string option \<Rightarrow> string" where
  "interp s = (case s of None \<Rightarrow> ''undefined'' | Some t \<Rightarrow> t)"

subsection \<open>Cleaning the user's command\<close>

text \<open>
  \<open>command.replace(/^#!.*\n/, '')\<close>. The pattern has no flag, so \<open>^\<close> is the start of the
  text and \<open>.\<close> is any character but a line terminator (line feed and carriage return,
  among 8-bit characters). \<open>.*\<close> is greedy and runs to the first line terminator or to the
  end of the text, and the pattern matches when a line feed stands there; giving characters
  back does not help, since none of them is a line feed. Only the first match is replaced.
\<close>

definition isLineTerminator :: "char \<Rightarrow> bool" where
  "isLineTerminator c = (c = CHR 0x0A \<or> c = CHR 0x0D)"

definition replace_shebang :: "string \<Rightarrow> string" where
  "replace_shebang s =
     (case s of
        a # b # rest \<Rightarrow>
          if a = CHR ''#'' \<and> b = CHR ''!'' then
            (case dropWhile (\<lambda>c. \<not> isLineTerminator c) rest of
               [] \<Rightarrow> s
             | c # rest' \<Rightarrow> if c = CHR 0x0A then rest' else s)
          else s
      | _ \<Rightarrow> s)"

text \<open>\<open>String.prototype.trim\<close>: white space and line terminators are removed at both ends.
  Among 8-bit characters these are tab, line feed, vertical tab, form feed, carriage return,
  space and the no-break space.\<close>

definition isWhiteSpace :: "char \<Rightarrow> bool" where
  "isWhiteSpace c =
     (c = CHR 0x09 \<or> c = CHR 0x0A \<or> c = CHR 0x0B \<or> c = CHR 0x0C \<or> c = CHR 0x0D \<or>
      c = CHR 0x20 \<or> c = CHR 0xA0)"

definition trim :: "string \<Rightarrow> string" where
  "trim s = rev (dropWhile isWhiteSpace (rev (dropWhile isWhiteSpace s)))"

definition cleanedCommand :: "props \<Rightarrow> string" where
  "cleanedCommand p = trim (replace_shebang (command p))"

subsection \<open>The mount command and the composed script\<close>

definition imageName :: "props \<Rightarrow> string" where
  "imageName p = or_default (dockerImage p) ''ubuntu:latest''"

definition nfsOptions :: "props \<Rightarrow> string" where
  "nfsOptions p = or_default (mountOptions p) ''rw,sync''"

definition smbOptions :: "props \<Rightarrow> string" where
  "smbOptions p =
     or_default (mountOptions p) ''rw'' @
     (if truthy (mountUsername p) then
        '',username='' @ interp (mountUsername p) @
        (if truthy (mountPassword p) then '',password='' @ interp (mountPassword p) else [])
      else [])"

definition mountCommand :: "props \<Rightarrow> string" where
  "mountCommand p =
     (if mountType p = Some ''nfs'' then
        ''mount -t nfs -o '' @ nfsOptions p @ '' '' @ interp (mountSource p) @ '' '' @
        interp (mountPoint p)
      else if mountType p = Some ''smb'' then
        ''mount -t cifs -o '' @ smbOptions p @ '' '' @ interp (mountSource p) @ '' '' @
        interp (mountPoint p)
      else [])"

definition installPackages :: "props \<Rightarrow> string" where
  \<open>installPackages p =
    (if mountType p = Some ''nfs'' then
       ''\<newline>'' @
       ''# Install NFS utilities as root\<newline>'' @
       ''export DEBIAN_FRONTEND=noninteractive\<newline>'' @
       ''if command -v apt-get &>/dev/null; then\<newline>'' @
       ''  timeout 30 apt-get update -qq >/dev/null 2>&1 || echo "[Warning] apt-get update failed" >&2\<newline>'' @
       ''  timeout 30 apt-get install -y --no-install-recommends nfs-common >/dev/null 2>&1 || echo "[Warning] nfs-common installation failed" >&2\<newline>'' @
       ''elif command -v apk &>/dev/null; then\<newline>'' @
       ''  apk add --no-cache nfs-utils >/dev/null 2>&1 || echo "[Warning] nfs-utils installation failed" >&2\<newline>'' @
       ''elif command -v yum &>/dev/null; then\<newline>'' @
       ''  yum install -y nfs-utils >/dev/null 2>&1 || echo "[Warning] nfs-utils installation failed" >&2\<newline>'' @
       ''fi''
     else if mountType p = Some ''smb'' then
       ''\<newline>'' @
       ''# Install CIFS utilities as root\<newline>'' @
       ''export DEBIAN_FRONTEND=noninteractive\<newline>'' @
       ''if command -v apt-get &>/dev/null; then\<newline>'' @
       ''  timeout 30 apt-get update -qq >/dev/null 2>&1 || echo "[Warning] apt-get update failed" >&2\<newline>'' @
       ''  timeout 30 apt-get install -y --no-install-recommends cifs-utils >/dev/null 2>&1 || echo "[Warning] cifs-utils installation failed" >&2\<newline>'' @
       ''elif command -v apk &>/dev/null; then\<newline>'' @
       ''  apk add --no-cache cifs-utils >/dev/null 2>&1 || echo "[Warning] cifs-utils installation failed" >&2\<newline>'' @
       ''elif command -v yum &>/dev/null; then\<newline>'' @
       ''  yum install -y cifs-utils >/dev/null 2>&1 || echo "[Warning] cifs-utils installation failed" >&2\<newline>'' @
       ''fi''
     else [])\<close>

definition fullScript :: "props \<Rightarrow> string" where
  \<open>fullScript p =
    (if truthy (mountType p) \<and> truthy (mountSource p) then
       ''#!/bin/bash\<newline>'' @
       ''# Script runs as root initially\<newline>'' @
       ''set +e\<newline>'' @
       ''\<newline>'' @
       installPackages p @
       ''\<newline>'' @
       ''\<newline>'' @
       ''# Create mount point as root\<newline>'' @
       ''mkdir -p '' @
       interp (mountPoint p) @
       '' 2>/dev/null || echo "[Warning] Could not create mount point '' @
       interp (mountPoint p) @
       ''" >&2\<newline>'' @
       ''\<newline>'' @
       ''# Mount network drive as root\<newline>'' @
       ''if '' @
       mountCommand p @
       ''; then\<newline>'' @
       ''  :  # Mount successful, no output\<newline>'' @
       ''else\<newline>'' @
       ''  MOUNT_EXIT=$?\<newline>'' @
       ''  echo "[Error] Mount failed with exit code: $MOUNT_EXIT" >&2\<newline>'' @
       ''fi\<newline>'' @
       ''\<newline>'' @
       (if runAsRoot p = Some True then
          ''\<newline>'' @
          ''# Execute command as root\<newline>'' @
          ''cd /workspace\<newline>'' @
          cleanedCommand p @
          ''\<newline>''
        else
          ''\<newline>'' @
          ''# Switch to non-root user for command execution\<newline>'' @
          ''su - activepieces << 'EOF'\<newline>'' @
          ''cd /workspace\<newline>'' @
          cleanedCommand p @
          ''\<newline>'' @
          ''EOF\<newline>'') @
       ''\<newline>'' @
       ''\<newline>'' @
       ''# Unmount as root (after user command completes)\<newline>'' @
       ''umount '' @
       interp (mountPoint p) @
       '' 2>/dev/null || true\<newline>''
     else
       ''#!/bin/bash\<newline>'' @
       ''# No mount configuration\<newline>'' @
       ''set +e\<newline>'' @
       ''\<newline>'' @
       (if runAsRoot p = Some True then
          ''\<newline>'' @
          ''# Execute command as root\<newline>'' @
          ''cd /workspace\<newline>'' @
          cleanedCommand p @
          ''\<newline>''
        else
          ''\<newline>'' @
          ''# Run command as non-root user\<newline>'' @
          ''su - activepieces << 'EOF'\<newline>'' @
          ''cd /workspace\<newline>'' @
          cleanedCommand p @
          ''\<newline>'' @
          ''EOF\<newline>'') @
       ''\<newline>'')\<close>

definition Cmd :: "string \<Rightarrow> string list" where
  \<open>Cmd encodedScript =
    [''bash'', ''-c'',
     ''\<newline>'' @
     ''          # Running as root initially\<newline>'' @
     ''          export DEBIAN_FRONTEND=noninteractive\<newline>'' @
     ''          \<newline>'' @
     ''          # Install necessary packages if needed\<newline>'' @
     ''          if command -v apt-get &>/dev/null; then\<newline>'' @
     ''            apt-get update -qq >/dev/null 2>&1 || echo "Warning: apt-get update failed" >&2\<newline>'' @
     ''            # Only install coreutils if timeout command is missing\<newline>'' @
     ''            if ! command -v timeout &>/dev/null; then\<newline>'' @
     ''              apt-get install -y --no-install-recommends coreutils >/dev/null 2>&1 || echo "Warning: coreutils installation failed" >&2\<newline>'' @
     ''            fi\<newline>'' @
     ''          fi\<newline>'' @
     ''          \<newline>'' @
     ''          # Create non-root user (without sudo privileges)\<newline>'' @
     ''          if ! id activepieces &>/dev/null; then\<newline>'' @
     ''            groupadd -g 1001 activepieces 2>/dev/null || true\<newline>'' @
     ''            useradd -u 1001 -g 1001 -m -s /bin/bash activepieces 2>/dev/null || {\<newline>'' @
     ''              # If UID 1001 is taken, find next available UID\<newline>'' @
     ''              for uid in {1002..1010}; do\<newline>'' @
     ''                if useradd -u $uid -g activepieces -m -s /bin/bash activepieces 2>/dev/null; then\<newline>'' @
     ''                  break\<newline>'' @
     ''                fi\<newline>'' @
     ''              done\<newline>'' @
     ''            }\<newline>'' @
     ''          fi\<newline>'' @
     ''          \<newline>'' @
     ''          # Create workspace directory with proper permissions\<newline>'' @
     ''          mkdir -p /workspace\<newline>'' @
     ''          chown activepieces:activepieces /workspace\<newline>'' @
     ''          \<newline>'' @
     ''          # Decode the user script\<newline>'' @
     ''          echo '' @
     [CHR 0x27] @
     encodedScript @
     [CHR 0x27] @
     '' | base64 -d > /tmp/user_script.sh\<newline>'' @
     ''          chmod +x /tmp/user_script.sh\<newline>'' @
     ''          chown activepieces:activepieces /tmp/user_script.sh\<newline>'' @
     ''          \<newline>'' @
     ''          # Execute the script (mount operations will be handled inside)\<newline>'' @
     ''          bash /tmp/user_script.sh\<newline>'' @
     ''        '']\<close>

subsection \<open>The runtime and the Docker daemon\<close>

text \<open>
  What the Node runtime computes: \<open>chunk.toString()\<close> (the UTF-8 decoding of a buffer),
  \<open>Buffer.from(text).toString('base64')\<close> and \<open>new Date().toISOString()\<close>.
\<close>

record platform =
  toString :: "byte list \<Rightarrow> string"
  toBase64 :: "string \<Rightarrow> string"
  now :: string

text \<open>
  What the daemon answers during one run. A request either succeeds (\<open>None\<close>) or is
  rejected with an error. \<open>chunks\<close> are the \<open>data\<close> events of the attached stream that
  reach the handler before \<open>run\<close> returns, in order. \<open>exitsAfter\<close> is the time in
  milliseconds, counted from the arming of the timer, after which the container ends by
  itself (\<open>None\<close>: it never does). \<open>wait\<close> is what \<open>container.wait()\<close> settles with once the
  container has ended: an error, or the exit status of the container.
\<close>

record docker =
  inspect :: "js_error option"
  pull :: "js_error option"
  followProgress :: "js_error option"
  createContainer :: "js_error option"
  attach :: "js_error option"
  start :: "js_error option"
  chunks :: "byte list list"
  exitsAfter :: "int option"
  kill :: "js_error option"
  wait :: "js_error + int"

text \<open>What \<open>run\<close> asks of the daemon and of the runtime's timers.\<close>

datatype call =
    Inspect string
  | Pull string
  | FollowProgress
  | CreateContainer string "string list"
  | Attach
  | Start
  | SetTimeout int
  | Wait
  | Kill
  | ClearTimeout

text \<open>How a run ends: it returns an object, it throws, or it waits for ever.\<close>

datatype outcome = Returned jsobject | Thrown js_error | Pending

definition encodedScript :: "platform \<Rightarrow> props \<Rightarrow> string" where
  "encodedScript pf p = toBase64 pf (fullScript p)"

subsection \<open>The handler of the attached stream\<close>

text \<open>
  The handler of \<open>data\<close> events, on the pair of the buffers \<open>stdout\<close> and \<open>stderr\<close>. It reads
  the first byte of the chunk (\<open>chunk[0]\<close> is undefined on an empty chunk, and then equal
  neither to 1 nor to 2) and cuts eight characters off the decoded chunk.
\<close>

definition onData :: "platform \<Rightarrow> byte list \<Rightarrow> string \<times> string \<Rightarrow> string \<times> string" where
  "onData pf chunk bufs =
     (let data = toString pf chunk;
          chunk0 = (case chunk of [] \<Rightarrow> None | b # _ \<Rightarrow> Some b)
      in if chunk0 = Some 1 then (fst bufs @ drop 8 data, snd bufs)
         else if chunk0 = Some 2 then (fst bufs, snd bufs @ drop 8 data)
         else (fst bufs @ data, snd bufs))"

definition collect :: "platform \<Rightarrow> byte list list \<Rightarrow> string \<times> string" where
  "collect pf cs = fold (onData pf) cs ([], [])"

subsection \<open>The \<open>catch\<close> block\<close>

definition newError :: "string \<Rightarrow> js_error" where
  "newError m = \<lparr>message = Some m, statusCode = None\<rparr>"

definition rethrow :: "props \<Rightarrow> js_error \<Rightarrow> js_error" where
  "rethrow p e =
     (if (case message e of None \<Rightarrow> False | Some m \<Rightarrow> sublist ''connect ENOENT'' m) then
        newError (''Docker socket not found. Please ensure Docker is running and the socket '' @
                  ''is mounted with -v /var/run/docker.sock:/var/run/docker.sock'')
      else if statusCode e = Some 404 then
        newError (''Docker image '' @ imageName p @
                  '' not found and could not be pulled. Please check your internet connection.'')
      else e)"

subsection \<open>The run\<close>

text \<open>The image is inspected; when the inspection fails it is pulled, and the end of the pull
  is awaited. A failed inspection is not an error of the run.\<close>

definition resolveImage :: "docker \<Rightarrow> props \<Rightarrow> call list \<times> js_error option" where
  "resolveImage dk p =
     (case inspect dk of
        None \<Rightarrow> ([Inspect (imageName p)], None)
      | Some _ \<Rightarrow>
          (case pull dk of
             Some e \<Rightarrow> ([Inspect (imageName p), Pull (imageName p)], Some e)
           | None \<Rightarrow> ([Inspect (imageName p), Pull (imageName p), FollowProgress],
                      followProgress dk)))"

text \<open>One awaited request inside the \<open>try\<close> block: it is not made once an earlier one was
  rejected.\<close>

fun await :: "call \<Rightarrow> js_error option \<Rightarrow> call list \<times> js_error option \<Rightarrow> call list \<times> js_error option" where
  "await c r (cs, Some e) = (cs, Some e)"
| "await c r (cs, None) = (cs @ [c], r)"

definition startContainer :: "platform \<Rightarrow> docker \<Rightarrow> props \<Rightarrow> call list \<times> js_error option" where
  "startContainer pf dk p =
     await Start (start dk)
       (await Attach (attach dk)
          (await (CreateContainer (imageName p) (Cmd (encodedScript pf p))) (createContainer dk)
             (resolveImage dk p)))"

definition executionTimeout :: "props \<Rightarrow> int" where
  "executionTimeout p =
     (case timeout p of None \<Rightarrow> 30 | Some t \<Rightarrow> if t = 0 then 30 else t) * 1000"

text \<open>
  \<open>setTimeout\<close> of Node runs a timer whose delay is below 1 or above 2147483647
  milliseconds with a delay of 1 millisecond (\<open>timerDelay\<close>). The timer fires when the
  container has not ended by itself within the delay; its callback asks for the kill and
  ignores a rejection. \<open>container.wait()\<close> settles when the container has ended: by itself,
  or, when it never does, by the kill if the daemon accepts it. When it settles the timer is
  cleared and the object is returned, whatever the exit status; when it is rejected the error
  goes to the \<open>catch\<close> block.
\<close>

definition timerDelay :: "int \<Rightarrow> int" where
  "timerDelay d = (if d < 1 \<or> 2147483647 < d then 1 else d)"

definition timerFires :: "docker \<Rightarrow> props \<Rightarrow> bool" where
  "timerFires dk p =
     (case exitsAfter dk of None \<Rightarrow> True | Some t \<Rightarrow> timerDelay (executionTimeout p) < t)"

definition containerEnds :: "docker \<Rightarrow> props \<Rightarrow> bool" where
  "containerEnds dk p = (case exitsAfter dk of Some t \<Rightarrow> True | None \<Rightarrow> kill dk = None)"

definition result :: "platform \<Rightarrow> docker \<Rightarrow> jsobject" where
  "result pf dk =
     (let bufs = collect pf (chunks dk) in
      [(''success'', JBool True),
       (''output'', JStr (fst bufs)),
       (''stdout'', JStr (fst bufs)),
       (''stderr'', JStr (snd bufs)),
       (''executionTime'', JStr (now pf))])"

definition supervise :: "platform \<Rightarrow> docker \<Rightarrow> props \<Rightarrow> call list \<times> outcome" where
  "supervise pf dk p =
     (let cs = [SetTimeout (executionTimeout p), Wait] @ (if timerFires dk p then [Kill] else [])
      in if \<not> containerEnds dk p then (cs, Pending)
         else (case wait dk of
                 Inl e \<Rightarrow> (cs @ [ClearTimeout], Thrown (rethrow p e))
               | Inr status \<Rightarrow> (cs @ [ClearTimeout], Returned (result pf dk))))"

definition run :: "platform \<Rightarrow> docker \<Rightarrow> props \<Rightarrow> call list \<times> outcome" where
  "run pf dk p =
     (case startContainer pf dk p of
        (cs, Some e) \<Rightarrow> (cs, Thrown (rethrow p e))
      | (cs, None) \<Rightarrow> (case supervise pf dk p of (cs', out) \<Rightarrow> (cs @ cs', out)))"

subsection \<open>Notions used in the statements\<close>

text \<open>The credential options that the SMB branch appends to the mount options.\<close>

definition credentials :: "props \<Rightarrow> string" where
  "credentials p =
     (if truthy (mountUsername p) then
        '',username='' @ interp (mountUsername p) @
        (if truthy (mountPassword p) then '',password='' @ interp (mountPassword p) else [])
      else [])"

text \<open>\<open>in_order ws s\<close>: the texts \<open>ws\<close> occur in \<open>s\<close> one after the other, in this order and
  without overlap. The search tries every place where the first text stands.\<close>

fun in_order :: "'a list list \<Rightarrow> 'a list \<Rightarrow> bool" where
  "in_order [] s = True"
| "in_order (w # ws) [] = (w = [] \<and> in_order ws [])"
| "in_order (w # ws) (c # s) =
     ((prefix w (c # s) \<and> in_order ws (drop (length w) (c # s))) \<or> in_order (w # ws) s)"


text \<open>The texts of a request that are written into the composed script.\<close>

definition requestTexts :: "props \<Rightarrow> string list" where
  "requestTexts p =
     [cleanedCommand p, interp (mountPoint p), interp (mountSource p), interp (mountOptions p),
      interp (mountUsername p), interp (mountPassword p)]"

text \<open>
  The cleaning in the words of the specification: when the text begins with \<open>#!\<close>, its
  first line is removed, that is the text up to and including the first line feed, or all
  of the text when it has no line feed.
\<close>

definition strip_directive_line :: "string \<Rightarrow> string" where
  "strip_directive_line s =
     (if prefix ''#!'' s then drop 1 (dropWhile (\<lambda>c. c \<noteq> CHR 0x0A) s) else s)"

subsection \<open>Example requests\<close>

text \<open>A request as the form sends it when only the command is filled in, and the mount
  configurations of the README.\<close>

definition plain_request :: props where
  "plain_request =
     \<lparr>command = ''echo hi'', mountType = Some [], mountSource = None,
      mountPoint = Some ''/mnt/network'', mountOptions = Some [], mountUsername = None,
      mountPassword = None, dockerImage = Some ''ubuntu:latest'', timeout = Some 30,
      runAsRoot = Some False\<rparr>"

definition nfs_request :: props where
  "nfs_request =
     plain_request\<lparr>mountType := Some ''nfs'', mountSource := Some ''server.local:/exports/data''\<rparr>"

definition smb_request :: props where
  "smb_request =
     plain_request\<lparr>mountType := Some ''smb'', mountSource := Some ''//server.local/share'',
       mountUsername := Some ''myuser'', mountPassword := Some ''secret''\<rparr>"

subsection \<open>An example runtime and example daemons\<close>

text \<open>
  The base64 text of a list of bytes, and the UTF-8 bytes of a text of 8-bit characters
  (a character from 128 on takes two bytes).
\<close>

definition b64 :: "nat \<Rightarrow> char" where
  "b64 n = ''ABCDEFGHIJKLMNOPQRSTUVWXYZabcdefghijklmnopqrstuvwxyz0123456789+/'' ! (n mod 64)"

fun base64 :: "nat list \<Rightarrow> string" where
  "base64 (a # b # c # rest) =
     [b64 (a div 4), b64 (a mod 4 * 16 + b div 16), b64 (b mod 16 * 4 + c div 64), b64 (c mod 64)] @
     base64 rest"
| "base64 [a, b] = [b64 (a div 4), b64 (a mod 4 * 16 + b div 16), b64 (b mod 16 * 4), CHR ''='']"
| "base64 [a] = [b64 (a div 4), b64 (a mod 4 * 16), CHR ''='', CHR ''='']"
| "base64 [] = []"

definition utf8 :: "string \<Rightarrow> nat list" where
  "utf8 s =
     concat (map (\<lambda>c. let n = of_char c in
                        if n < 128 then [n] else [192 + n div 64, 128 + n mod 64]) s)"

text \<open>
  A runtime for the evaluation of examples whose bytes are all below 128. Its \<open>toString\<close>
  maps a byte to the character of the same code, which is what the UTF-8 decoding of Node
  yields on bytes below 128. On other bytes it is not Node's decoding; no statement below uses
  it on such a byte.
\<close>

definition node_ascii :: platform where
  "node_ascii =
     \<lparr>toString = map (\<lambda>b. char_of (uint b)),
      toBase64 = (\<lambda>s. base64 (utf8 s)),
      now = ''2024-01-01T00:00:00.000Z''\<rparr>"

text \<open>
  A frame of the stream that the daemon sends for a container without a terminal: the tag
  of the stream (1 for stdout, 2 for stderr), three zero bytes, the length of the payload
  as four bytes, the highest first, and the payload.
\<close>

definition frame :: "byte \<Rightarrow> byte list \<Rightarrow> byte list" where
  "frame tag payload =
     [tag, 0, 0, 0] @ map (\<lambda>k. of_nat (length payload div 256 ^ k)) [3, 2, 1, 0] @ payload"

text \<open>
  What the buffers are to hold after a sequence of frames, in the words of the specification:
  the payloads of the frames tagged stderr, in order, in the second buffer, the payloads of
  all other frames, in order, in the first.
\<close>

definition demultiplexed :: "platform \<Rightarrow> (byte \<times> byte list) list \<Rightarrow> string \<times> string" where
  "demultiplexed pf fs =
     (concat (map (\<lambda>f. toString pf (snd f)) (filter (\<lambda>f. fst f \<noteq> 2) fs)),
      concat (map (\<lambda>f. toString pf (snd f)) (filter (\<lambda>f. fst f = 2) fs)))"

text \<open>A daemon that has the image, accepts every request, and whose container prints
  \<open>hi\<close> and ends by itself after 200 milliseconds with status 0.\<close>

definition docker_ok :: docker where
  "docker_ok =
     \<lparr>inspect = None, pull = None, followProgress = None, createContainer = None,
      attach = None, start = None,
      chunks = [[1, 0, 0, 0, 0, 0, 0, 3, 104, 105, 10]],
      exitsAfter = Some 200, kill = None, wait = Inr 0\<rparr>"

text \<open>The container prints \<open>oops\<close> on stderr and ends with status 3.\<close>

definition docker_exit3 :: docker where
  "docker_exit3 =
     docker_ok\<lparr>chunks := [[2, 0, 0, 0, 0, 0, 0, 5, 111, 111, 112, 115, 10]], wait := Inr 3\<rparr>"











text \<open>A command that holds a line \<open>EOF\<close>.\<close>

definition eof_request :: props where
  "eof_request = plain_request\<lparr>command := ''echo a\<newline>EOF\<newline>id''\<rparr>"

section \<open>Properties\<close>

subsection \<open>Texts in order\<close>

lemma in_order_nil: "in_order [] s"
  by simp

lemma in_order_hit:
  assumes "in_order ws s"
  shows "in_order (w # ws) (w @ s)"
proof (cases "w @ s")
  case Nil
  with assms show ?thesis by simp
next
  case (Cons c t)
  have "prefix w (w @ s)" and "drop (length w) (w @ s) = s" by simp_all
  with assms Cons show ?thesis by simp
qed

lemma in_order_skip1: "in_order ws s \<Longrightarrow> in_order ws (c # s)"
  by (cases ws) simp_all

lemma in_order_skip: "in_order ws s \<Longrightarrow> in_order ws (l @ s)"
  by (induction l) (auto intro: in_order_skip1)

lemma in_order_Cons_iff:
  "in_order (w # ws) s \<longleftrightarrow> (\<exists>a b. s = a @ w @ b \<and> in_order ws b)"
proof
  show "\<exists>a b. s = a @ w @ b \<and> in_order ws b" if "in_order (w # ws) s"
    using that
  proof (induction s)
    case Nil
    then show ?case by simp
  next
    case (Cons c s)
    then consider "prefix w (c # s)" "in_order ws (drop (length w) (c # s))"
      | "in_order (w # ws) s"
      by auto
    then show ?case
    proof cases
      case 1
      then have "c # s = [] @ w @ drop (length w) (c # s)"
        by (auto simp: prefix_def)
      with 1 show ?thesis by blast
    next
      case 2
      with Cons.IH obtain a b where "s = a @ w @ b" "in_order ws b" by blast
      then have "c # s = (c # a) @ w @ b" by simp
      with \<open>in_order ws b\<close> show ?thesis by blast
    qed
  qed
next
  assume "\<exists>a b. s = a @ w @ b \<and> in_order ws b"
  then show "in_order (w # ws) s"
    by (auto intro: in_order_skip in_order_hit)
qed



lemma in_order_sublists:
  assumes "list_all2 sublist us ws" and "in_order ws s"
  shows "in_order us s"
  using assms
proof (induction us ws arbitrary: s rule: list_all2_induct)
  case Nil
  then show ?case by simp
next
  case (Cons u us w ws)
  from Cons.prems obtain a b where s: "s = a @ w @ b" and r: "in_order ws b"
    by (auto simp: in_order_Cons_iff)
  from Cons.hyps(1) obtain x y where w: "w = x @ u @ y"
    by (auto simp: sublist_def)
  from Cons.IH [OF r] have "in_order us (y @ b)"
    by (rule in_order_skip)
  moreover from s w have "s = (a @ x) @ u @ (y @ b)" by simp
  ultimately show ?case
    unfolding in_order_Cons_iff by blast
qed

subsection \<open>The mount command\<close>

text \<open>
  C8. With mount options that are empty or undefined, the NFS mount command uses the options
  \<open>rw,sync\<close> and the SMB mount command uses \<open>rw\<close>, followed by the credential options. The
  NFS mount command does not depend on the username and the password of the request: the
  credential options are appended in the SMB branch only.
\<close>

theorem mount_defaults:
  "(mountType p = Some ''nfs'' \<and> \<not> truthy (mountOptions p) \<longrightarrow>
      mountCommand p =
        ''mount -t nfs -o rw,sync '' @ interp (mountSource p) @ '' '' @ interp (mountPoint p)) \<and>
   (mountType p = Some ''smb'' \<and> \<not> truthy (mountOptions p) \<longrightarrow>
      mountCommand p =
        ''mount -t cifs -o rw'' @ credentials p @ '' '' @ interp (mountSource p) @ '' '' @
        interp (mountPoint p)) \<and>
   (mountType p = Some ''nfs'' \<longrightarrow>
      mountCommand (p\<lparr>mountUsername := u, mountPassword := w\<rparr>) = mountCommand p)"
  by (auto simp: mountCommand_def nfsOptions_def smbOptions_def credentials_def or_default_def
      truthy_def split: option.splits)

theorem mount_defaults_witness:
  "mountCommand nfs_request = ''mount -t nfs -o rw,sync server.local:/exports/data /mnt/network'' \<and>
   mountCommand smb_request =
     ''mount -t cifs -o rw,username=myuser,password=secret //server.local/share /mnt/network'' \<and>
   mountCommand (nfs_request\<lparr>mountUsername := Some ''myuser'', mountPassword := Some ''secret''\<rparr>) =
     ''mount -t nfs -o rw,sync server.local:/exports/data /mnt/network''"
  using mount_defaults [where p = nfs_request and u = "Some ''myuser''" and w = "Some ''secret''"]
    mount_defaults [where p = smb_request]
  by (simp add: nfs_request_def smb_request_def plain_request_def truthy_def interp_def
      credentials_def)

text \<open>
  C9. An SMB request without a username (undefined or empty) gets no credential option at
  all, whatever its password: the mount command is made of the mount options, the source and
  the mount point only.
\<close>

theorem password_needs_username:
  assumes "mountType p = Some ''smb''" and "\<not> truthy (mountUsername p)"
  shows "mountCommand p =
           ''mount -t cifs -o '' @ or_default (mountOptions p) ''rw'' @ '' '' @
           interp (mountSource p) @ '' '' @ interp (mountPoint p)"
  using assms by (simp add: mountCommand_def smbOptions_def)

theorem password_needs_username_witness:
  "mountCommand (smb_request\<lparr>mountUsername := None\<rparr>) =
     ''mount -t cifs -o rw //server.local/share /mnt/network''"
  using password_needs_username [of "smb_request\<lparr>mountUsername := None\<rparr>"]
  by (simp add: smb_request_def plain_request_def truthy_def interp_def or_default_def)

subsection \<open>The composed script\<close>






text \<open>With a mount, the last line of the composed script is the unmount command, which
  is followed by \<open>|| true\<close>: no later line exits with the status of the user's command.\<close>

lemma fullScript_ends_with_umount:
  assumes "truthy (mountType p)" and "truthy (mountSource p)"
  shows "suffix (''umount '' @ interp (mountPoint p) @ '' 2>/dev/null || true\<newline>'') (fullScript p)"
  unfolding fullScript_def
  apply (simp only: assms simp_thms if_True)
  apply (cases "runAsRoot p = Some True")
  subgoal
    apply (simp only: if_True if_False append_assoc simp_thms)
    apply (rule suffix_order.refl | rule suffix_appendI)+
    done
  subgoal
    apply (simp only: if_True if_False append_assoc simp_thms)
    apply (rule suffix_order.refl | rule suffix_appendI)+
    done
  done

subsection \<open>The examples, evaluated\<close>

text \<open>The composed scripts of the example requests, and the base64 text of the first one
  under the example runtime.\<close>

lemma fullScript_plain_request:
  \<open>fullScript plain_request =
     ''#!/bin/bash\<newline>'' @
     ''# No mount configuration\<newline>'' @
     ''set +e\<newline>'' @
     ''\<newline>'' @
     ''\<newline>'' @
     ''# Run command as non-root user\<newline>'' @
     ''su - activepieces << '' @
     [CHR 0x27] @
     ''EOF'' @
     [CHR 0x27] @
     ''\<newline>'' @
     ''cd /workspace\<newline>'' @
     ''echo hi\<newline>'' @
     ''EOF\<newline>'' @
     ''\<newline>''\<close>
  by (simp add: fullScript_def cleanedCommand_def replace_shebang_def trim_def isWhiteSpace_def
      plain_request_def truthy_def)

lemma encodedScript_plain_request:
  \<open>encodedScript node_ascii plain_request =
     ''IyEvYmluL2Jhc2gKIyBObyBtb3VudCBjb25maWd1cmF0aW9uCnNldCArZQoKCiMgUnVuIGNvbW1hbmQgYXMgbm9uLXJvb3QgdXNlcgpzdSAtIGFjdGl2ZXBpZWNlcyA8PCAnRU9GJwpjZCAvd29ya3NwYWNlCmVjaG8gaGkKRU9GCgo=''\<close>
  unfolding encodedScript_def fullScript_plain_request
  by (simp add: node_ascii_def utf8_def b64_def)

lemma fullScript_nfs_request:
  \<open>fullScript nfs_request =
     ''#!/bin/bash\<newline>'' @
     ''# Script runs as root initially\<newline>'' @
     ''set +e\<newline>'' @
     ''\<newline>'' @
     ''\<newline>'' @
     ''# Install NFS utilities as root\<newline>'' @
     ''export DEBIAN_FRONTEND=noninteractive\<newline>'' @
     ''if command -v apt-get &>/dev/null; then\<newline>'' @
     ''  timeout 30 apt-get update -qq >/dev/null 2>&1 || echo "[Warning] apt-get update failed" >&2\<newline>'' @
     ''  timeout 30 apt-get install -y --no-install-recommends nfs-common >/dev/null 2>&1 || echo "[Warning] nfs-common installation failed" >&2\<newline>'' @
     ''elif command -v apk &>/dev/null; then\<newline>'' @
     ''  apk add --no-cache nfs-utils >/dev/null 2>&1 || echo "[Warning] nfs-utils installation failed" >&2\<newline>'' @
     ''elif command -v yum &>/dev/null; then\<newline>'' @
     ''  yum install -y nfs-utils >/dev/null 2>&1 || echo "[Warning] nfs-utils installation failed" >&2\<newline>'' @
     ''fi\<newline>'' @
     ''\<newline>'' @
     ''# Create mount point as root\<newline>'' @
     ''mkdir -p /mnt/network 2>/dev/null || echo "[Warning] Could not create mount point /mnt/network" >&2\<newline>'' @
     ''\<newline>'' @
     ''# Mount network drive as root\<newline>'' @
     ''if mount -t nfs -o rw,sync server.local:/exports/data /mnt/network; then\<newline>'' @
     ''  :  # Mount successful, no output\<newline>'' @
     ''else\<newline>'' @
     ''  MOUNT_EXIT=$?\<newline>'' @
     ''  echo "[Error] Mount failed with exit code: $MOUNT_EXIT" >&2\<newline>'' @
     ''fi\<newline>'' @
     ''\<newline>'' @
     ''\<newline>'' @
     ''# Switch to non-root user for command execution\<newline>'' @
     ''su - activepieces << '' @
     [CHR 0x27] @
     ''EOF'' @
     [CHR 0x27] @
     ''\<newline>'' @
     ''cd /workspace\<newline>'' @
     ''echo hi\<newline>'' @
     ''EOF\<newline>'' @
     ''\<newline>'' @
     ''\<newline>'' @
     ''# Unmount as root (after user command completes)\<newline>'' @
     ''umount /mnt/network 2>/dev/null || true\<newline>''\<close>
  by (simp add: fullScript_def installPackages_def mountCommand_def nfsOptions_def
      cleanedCommand_def replace_shebang_def trim_def isWhiteSpace_def nfs_request_def
      plain_request_def truthy_def interp_def or_default_def)

subsection \<open>Privileges\<close>

text \<open>What holds of the texts: the composed script contains \<open>sudo\<close> only when a text of the
  request does, the bootstrap command contains \<open>sudoers\<close> or \<open>NOPASSWD\<close> only inside the
  encoded script, and when \<open>runAsRoot\<close> is not set the cleaned command stands between the
  line that opens the here-document for \<open>su - activepieces\<close> and a line \<open>EOF\<close>.\<close>

lemma sublist_sep:
  assumes "c \<notin> set w"
  shows "sublist w (xs @ c # ys) \<longleftrightarrow> sublist w xs \<or> sublist w ys"
proof
  assume "sublist w (xs @ c # ys)"
  then consider "sublist w xs" | "sublist w (c # ys)"
    | w1 w2 where "w = w1 @ w2" "suffix w1 xs" "prefix w2 (c # ys)"
    by (auto simp: sublist_append)
  then show "sublist w xs \<or> sublist w ys"
  proof cases
    case 1 then show ?thesis by simp
  next
    case 2
    with assms show ?thesis
      by (cases w) (auto simp: sublist_Cons_right)
  next
    case 3
    with assms have "w2 = []" by (cases w2) auto
    with 3 show ?thesis by (auto simp: suffix_imp_sublist)
  qed
next
  assume "sublist w xs \<or> sublist w ys"
  then show "sublist w (xs @ c # ys)"
    by (auto simp: sublist_append sublist_Cons_right)
qed

lemma sudo_installPackages: "\<not> sublist ''sudo'' (installPackages p)"
  by (simp add: installPackages_def sublist_Cons_right)

lemma sudo_or_default:
  "sublist ''sudo'' (or_default a ''rw'') \<longleftrightarrow> truthy a \<and> sublist ''sudo'' (interp a)"
  "sublist ''sudo'' (or_default a ''rw,sync'') \<longleftrightarrow> truthy a \<and> sublist ''sudo'' (interp a)"
  by (auto simp: or_default_def truthy_def interp_def sublist_Cons_right split: option.splits)

lemma sudo_mountCommand:
  assumes "sublist ''sudo'' (mountCommand p)"
  shows "\<exists>t\<in>set (requestTexts p). sublist ''sudo'' t"
  using assms
  by (auto simp: mountCommand_def nfsOptions_def smbOptions_def requestTexts_def
      sublist_Cons_right sublist_sep sudo_or_default split: if_splits)

lemma sudo_fullScript:
  assumes "sublist ''sudo'' (fullScript p)"
  shows "\<exists>t\<in>set (requestTexts p). sublist ''sudo'' t"
proof (cases "truthy (mountType p) \<and> truthy (mountSource p)")
  case True
  with assms have "sublist ''sudo'' (mountCommand p) \<or> sublist ''sudo'' (cleanedCommand p) \<or>
      sublist ''sudo'' (interp (mountPoint p))"
    by (auto simp: fullScript_def sublist_Cons_right sublist_sep sudo_installPackages
        split: if_splits)
  then show ?thesis
    using sudo_mountCommand [of p] by (auto simp: requestTexts_def)
next
  case False
  with assms have "sublist ''sudo'' (cleanedCommand p)"
    by (auto simp: fullScript_def sublist_Cons_right sublist_sep split: if_splits)
  then show ?thesis by (simp add: requestTexts_def)
qed

lemma sublist_skip: "sublist w s \<Longrightarrow> sublist w (l @ s)"
  by (simp add: sublist_append)

lemma su_fullScript:
  assumes "runAsRoot p \<noteq> Some True"
  shows "sublist (''su - activepieces << '' @ [CHR 0x27] @ ''EOF'' @ [CHR 0x27] @ ''\<newline>'' @
                  ''cd /workspace\<newline>'' @ cleanedCommand p @ ''\<newline>'' @ ''EOF\<newline>'')
           (fullScript p)"
  unfolding fullScript_def
  apply (cases "truthy (mountType p) \<and> truthy (mountSource p)")
  subgoal
    apply (simp only: assms if_True if_False append_assoc simp_thms)
    apply ((rule prefix_imp_sublist, (simp; fail)) | rule sublist_skip)+
    done
  subgoal
    apply (simp only: assms if_True if_False append_assoc simp_thms)
    apply ((rule prefix_imp_sublist, (simp; fail)) | rule sublist_skip)+
    done
  done

lemma boot_sudoers: "sublist ''sudoers'' (Cmd enc ! 2) \<longleftrightarrow> sublist ''sudoers'' enc"
  by (simp add: Cmd_def sublist_Cons_right sublist_sep)

lemma boot_nopasswd: "sublist ''NOPASSWD'' (Cmd enc ! 2) \<longleftrightarrow> sublist ''NOPASSWD'' enc"
  by (simp add: Cmd_def sublist_Cons_right sublist_sep)

text \<open>
  C4, evaluated at a failing input. The command of the request holds a line \<open>EOF\<close>. In the
  composed script this line stands after \<open>echo a\<close> and closes the here-document that is given
  to \<open>su - activepieces\<close>: the rest of the command, \<open>id\<close>, is a line of the outer script, which
  the bootstrap command runs as root.
\<close>

theorem here_document_closed_by_command:
  \<open>runAsRoot eof_request = Some False \<and>
   cleanedCommand eof_request = ''echo a\<newline>EOF\<newline>id'' \<and>
   fullScript eof_request =
     ''#!/bin/bash\<newline>'' @
     ''# No mount configuration\<newline>'' @
     ''set +e\<newline>'' @
     ''\<newline>'' @
     ''\<newline>'' @
     ''# Run command as non-root user\<newline>'' @
     ''su - activepieces << '' @ [CHR 0x27] @ ''EOF'' @ [CHR 0x27] @ ''\<newline>'' @
     ''cd /workspace\<newline>'' @
     ''echo a\<newline>'' @
     ''EOF\<newline>'' @
     ''id\<newline>'' @
     ''EOF\<newline>'' @
     ''\<newline>''\<close>
  by (simp add: fullScript_def cleanedCommand_def replace_shebang_def trim_def isWhiteSpace_def
      eof_request_def plain_request_def truthy_def)

text \<open>The bootstrap command gives the file of the composed script to \<open>activepieces\<close> before
  it runs the file, without a change of user: the script runs as root.\<close>

lemma bootstrap_runs_script_as_root:
  \<open>in_order [''chown activepieces:activepieces /tmp/user_script.sh'', ''bash /tmp/user_script.sh'']
     (Cmd enc ! 2)\<close>
proof -
  have \<open>in_order [''          chown activepieces:activepieces /tmp/user_script.sh\<newline>'',
                  ''          bash /tmp/user_script.sh\<newline>'']
          (Cmd enc ! 2)\<close>
    unfolding Cmd_def
    apply (simp only: numeral_2_eq_2 nth_Cons_Suc nth_Cons_0)
    apply (rule in_order_nil | rule in_order_hit | rule in_order_skip)+
    done
  moreover have \<open>list_all2 sublist
          [''chown activepieces:activepieces /tmp/user_script.sh'', ''bash /tmp/user_script.sh'']
          [''          chown activepieces:activepieces /tmp/user_script.sh\<newline>'',
           ''          bash /tmp/user_script.sh\<newline>'']\<close>
    by (simp add: sublist_Cons_right)
  ultimately show ?thesis
    by (rule in_order_sublists [rotated])
qed

subsection \<open>The cleaning of the command\<close>

lemma replace_shebang_line:
  assumes "\<forall>c\<in>set l. \<not> isLineTerminator c"
  shows "replace_shebang (''#!'' @ l @ CHR 0x0A # rest) = rest"
proof -
  from assms have "dropWhile (\<lambda>c. \<not> isLineTerminator c) l = []"
    by simp
  then have "dropWhile (\<lambda>c. \<not> isLineTerminator c) (l @ CHR 0x0A # rest) = CHR 0x0A # rest"
    using assms by (simp add: dropWhile_append isLineTerminator_def)
  then show ?thesis
    by (simp add: replace_shebang_def)
qed

lemma replace_shebang_changes:
  assumes "replace_shebang s \<noteq> s"
  shows "\<exists>l rest. (\<forall>c\<in>set l. \<not> isLineTerminator c) \<and> s = ''#!'' @ l @ CHR 0x0A # rest"
proof -
  from assms obtain t where s: "s = CHR ''#'' # CHR ''!'' # t"
    by (auto simp: replace_shebang_def split: list.splits if_splits)
  let ?P = "\<lambda>c. \<not> isLineTerminator c"
  from assms s obtain r where d: "dropWhile ?P t = CHR 0x0A # r"
    by (auto simp: replace_shebang_def split: list.splits if_splits)
  have "t = takeWhile ?P t @ dropWhile ?P t" by simp
  with d have "t = takeWhile ?P t @ CHR 0x0A # r" by simp
  moreover have "\<forall>c\<in>set (takeWhile ?P t). ?P c"
    by (auto dest: set_takeWhileD)
  ultimately show ?thesis using s by (metis append_Cons append_Nil)
qed

text \<open>
  What the cleaning does: when the command begins with \<open>#!\<close> and the first line terminator
  after it is a line feed, the text up to and including this line feed is removed, once: what
  follows is kept as it is, also when it begins with \<open>#!\<close> again, and is then trimmed.
  Every other command is only trimmed.
\<close>

lemma shebang_stripped_once:
  "((\<forall>c\<in>set l. \<not> isLineTerminator c) \<longrightarrow>
      cleanedCommand (p\<lparr>command := ''#!'' @ l @ CHR 0x0A # rest\<rparr>) = trim rest) \<and>
   ((\<nexists>l rest. (\<forall>c\<in>set l. \<not> isLineTerminator c) \<and> command p = ''#!'' @ l @ CHR 0x0A # rest) \<longrightarrow>
      cleanedCommand p = trim (command p))"
proof (intro conjI impI)
  assume "\<forall>c\<in>set l. \<not> isLineTerminator c"
  then show "cleanedCommand (p\<lparr>command := ''#!'' @ l @ CHR 0x0A # rest\<rparr>) = trim rest"
    using replace_shebang_line [of l rest] by (simp add: cleanedCommand_def)
next
  assume n: "\<nexists>l rest. (\<forall>c\<in>set l. \<not> isLineTerminator c) \<and>
                command p = ''#!'' @ l @ CHR 0x0A # rest"
  have "replace_shebang (command p) = command p"
  proof (rule ccontr)
    assume "replace_shebang (command p) \<noteq> command p"
    from replace_shebang_changes [OF this] n show False by blast
  qed
  then show "cleanedCommand p = trim (command p)"
    by (simp add: cleanedCommand_def)
qed

lemma shebang_stripped_once_example:
  "cleanedCommand (plain_request\<lparr>command := ''#!/bin/bash\<newline>#!/bin/sh\<newline>echo hi\<newline>''\<rparr>) =
     ''#!/bin/sh\<newline>echo hi'' \<and>
   cleanedCommand plain_request = ''echo hi''"
proof -
  have h: "\<forall>c\<in>set ''/bin/bash''. \<not> isLineTerminator c"
    by (simp add: isLineTerminator_def)
  have n: "\<nexists>l rest. (\<forall>c\<in>set l. \<not> isLineTerminator c) \<and>
             command plain_request = ''#!'' @ l @ CHR 0x0A # rest"
    by (simp add: plain_request_def)
  from h n shebang_stripped_once [where p = plain_request and l = "''/bin/bash''"
      and rest = "''#!/bin/sh\<newline>echo hi\<newline>''"]
  show ?thesis
    by (simp add: plain_request_def trim_def isWhiteSpace_def)
qed

text \<open>
  C6, evaluated at failing inputs. A directive line that ends with carriage return and line
  feed is not removed, and neither is a directive line that ends the text: the cleaned
  command still begins with it.
\<close>

theorem shebang_kept:
  "cleanedCommand (plain_request\<lparr>command := ''#!/bin/bash'' @ [CHR 0x0D, CHR 0x0A] @ ''echo hi''\<rparr>) =
     ''#!/bin/bash'' @ [CHR 0x0D, CHR 0x0A] @ ''echo hi'' \<and>
   trim (strip_directive_line (''#!/bin/bash'' @ [CHR 0x0D, CHR 0x0A] @ ''echo hi'')) = ''echo hi'' \<and>
   cleanedCommand (plain_request\<lparr>command := ''#!/bin/bash''\<rparr>) = ''#!/bin/bash'' \<and>
   trim (strip_directive_line ''#!/bin/bash'') = []"
  by (simp add: cleanedCommand_def replace_shebang_def isLineTerminator_def trim_def
      isWhiteSpace_def strip_directive_line_def)

subsection \<open>The supervision timer\<close>

lemma set_await: "set (fst (await c r x)) \<subseteq> insert c (set (fst x))"
  by (cases x; cases "snd x") auto

lemma SetTimeout_startContainer: "SetTimeout d \<notin> set (fst (startContainer pf dk p))"
proof -
  have "SetTimeout d \<notin> set (fst (resolveImage dk p))"
    by (simp add: resolveImage_def split: option.splits)
  then show ?thesis
    unfolding startContainer_def
    using set_await by (metis (no_types, lifting) call.distinct insertE subsetD)
qed

lemma SetTimeout_supervise:
  "SetTimeout d \<in> set (fst (supervise pf dk p)) \<longleftrightarrow> d = executionTimeout p"
  by (auto simp: supervise_def Let_def split: sum.splits)

text \<open>
  C10. When the timeout of the request is undefined or 0, the delay of the timer is 30000
  milliseconds: no timer is set with another delay, and the timer is set with this delay as
  soon as the container has been started.
\<close>

theorem timeout_default:
  assumes "timeout p = None \<or> timeout p = Some 0"
  shows "executionTimeout p = 30000 \<and>
         (\<forall>d. SetTimeout d \<in> set (fst (run pf dk p)) \<longrightarrow> d = 30000) \<and>
         (snd (startContainer pf dk p) = None \<longrightarrow> SetTimeout 30000 \<in> set (fst (run pf dk p)))"
proof -
  from assms have t: "executionTimeout p = 30000"
    by (auto simp: executionTimeout_def)
  obtain cs r where s: "startContainer pf dk p = (cs, r)" by (cases "startContainer pf dk p")
  have n: "SetTimeout d \<notin> set cs" for d
    using SetTimeout_startContainer [of d pf dk p] s by simp
  obtain cs' out where v: "supervise pf dk p = (cs', out)" by (cases "supervise pf dk p")
  have m: "SetTimeout d \<in> set cs' \<longleftrightarrow> d = 30000" for d
    using SetTimeout_supervise [of d pf dk p] v t by simp
  show ?thesis
    using t s n v m by (cases r) (auto simp: run_def)
qed

theorem timeout_default_witness:
  "executionTimeout (plain_request\<lparr>timeout := Some 0\<rparr>) = 30000 \<and>
   SetTimeout 30000 \<in> set (fst (run node_ascii docker_ok (plain_request\<lparr>timeout := Some 0\<rparr>)))"
  using timeout_default [where p = "plain_request\<lparr>timeout := Some 0\<rparr>" and pf = node_ascii
      and dk = docker_ok]
  by (simp add: plain_request_def startContainer_def resolveImage_def docker_ok_def)

subsection \<open>The run\<close>



lemma run_started:
  assumes "snd (startContainer pf dk p) = None"
  shows "run pf dk p =
           (fst (startContainer pf dk p) @ fst (supervise pf dk p), snd (supervise pf dk p))"
  using assms by (cases "startContainer pf dk p"; cases "supervise pf dk p") (simp add: run_def)



lemma startContainer_wait: "startContainer pf (dk\<lparr>wait := w\<rparr>) p = startContainer pf dk p"
  by (simp add: startContainer_def resolveImage_def split: option.splits)

lemma supervise_status:
  "supervise pf (dk\<lparr>wait := Inr s\<rparr>) p = supervise pf (dk\<lparr>wait := Inr s'\<rparr>) p"
  by (simp add: supervise_def containerEnds_def timerFires_def timerDelay_def result_def Let_def
      split: option.splits)

text \<open>The exit status that \<open>container.wait()\<close> settles with is not read.\<close>

lemma exit_status_discarded:
  "run pf (dk\<lparr>wait := Inr s\<rparr>) p = run pf (dk\<lparr>wait := Inr s'\<rparr>) p"
  unfolding run_def startContainer_wait supervise_status [where s = s and s' = s'] ..

text \<open>
  C1, evaluated at a failing input. The container ends by itself with status 3 before the
  timer fires. The run returns an object and does not throw, but the object says
  \<open>success: true\<close> and has no property for the exit status.
\<close>

theorem nonzero_exit_reported_as_success:
  "wait docker_exit3 = Inr 3 \<and>
   \<not> timerFires docker_exit3 (plain_request\<lparr>command := ''echo oops >&2; exit 3''\<rparr>) \<and>
   snd (run node_ascii docker_exit3 (plain_request\<lparr>command := ''echo oops >&2; exit 3''\<rparr>)) =
     Returned [(''success'', JBool True), (''output'', JStr []), (''stdout'', JStr []),
               (''stderr'', JStr ''oops\<newline>''),
               (''executionTime'', JStr ''2024-01-01T00:00:00.000Z'')]"
  by (simp add: run_def startContainer_def resolveImage_def supervise_def containerEnds_def
      timerFires_def timerDelay_def executionTimeout_def result_def collect_def onData_def docker_exit3_def
      docker_ok_def node_ascii_def char_of_def plain_request_def)



text \<open>A delay above 2147483647 milliseconds is run as a delay of one millisecond: with a
  timeout of 2147484 seconds the timer fires at once and the kill is asked for.\<close>

lemma timer_delay_clamped:
  "timerFires docker_ok (plain_request\<lparr>timeout := Some 2147484\<rparr>) \<and>
   Kill \<in> set (fst (supervise node_ascii docker_ok (plain_request\<lparr>timeout := Some 2147484\<rparr>)))"
  by (simp add: supervise_def timerFires_def timerDelay_def executionTimeout_def docker_ok_def
      plain_request_def containerEnds_def)


text \<open>When the container never ends by itself and the daemon rejects the kill, the rejection
  is ignored and the run waits for ever.\<close>

lemma run_pending:
  assumes "snd (startContainer pf dk p) = None" and "exitsAfter dk = None" and "kill dk = Some e"
  shows "snd (run pf dk p) = Pending"
  using run_started [OF assms(1)] assms(2,3)
  by (simp add: supervise_def containerEnds_def Let_def)







subsection \<open>The attached stream\<close>

text \<open>When every chunk is one whole frame of stdout or stderr, and the decoding of a frame
  is eight characters followed by the decoding of its payload, the buffers hold the payloads
  of the two streams.\<close>

lemma onData_frame:
  assumes "tag = 1 \<or> tag = 2" and "toString pf (frame tag pl) = h @ toString pf pl"
    and "length h = 8"
  shows "onData pf (frame tag pl) (out, err) =
           (if tag = 2 then (out, err @ toString pf pl) else (out @ toString pf pl, err))"
  using assms by (auto simp: onData_def frame_def Let_def)

lemma collect_frames:
  assumes "\<forall>f\<in>set fs. (fst f = 1 \<or> fst f = 2) \<and>
             (\<exists>h. length h = 8 \<and> toString pf (frame (fst f) (snd f)) = h @ toString pf (snd f))"
  shows "fold (onData pf) (map (\<lambda>f. frame (fst f) (snd f)) fs) (out, err) =
           (out @ fst (demultiplexed pf fs), err @ snd (demultiplexed pf fs))"
  using assms
proof (induction fs arbitrary: out err)
  case Nil
  then show ?case by (simp add: demultiplexed_def)
next
  case (Cons f fs)
  then obtain h where h: "length h = 8" "toString pf (frame (fst f) (snd f)) = h @ toString pf (snd f)"
    and t: "fst f = 1 \<or> fst f = 2"
    by auto
  from Cons have ih: "fold (onData pf) (map (\<lambda>f. frame (fst f) (snd f)) fs) (out', err') =
           (out' @ fst (demultiplexed pf fs), err' @ snd (demultiplexed pf fs))" for out' err'
    by simp
  show ?case
    using onData_frame [OF t h(2) h(1), of out err] ih t
    by (auto simp: demultiplexed_def)
qed

text \<open>With the example runtime this holds for the frames of stdout and stderr whose payload
  has fewer than 128 bytes, all of them below 128, so that every byte of a frame is below
  128.\<close>

lemma collect_frames_ascii:
  assumes "\<forall>f\<in>set fs. (fst f = 1 \<or> fst f = 2) \<and> length (snd f) < 128 \<and>
             (\<forall>b\<in>set (snd f). b < 128)"
  shows "collect node_ascii (map (\<lambda>f. frame (fst f) (snd f)) fs) = demultiplexed node_ascii fs"
proof -
  have "\<exists>h. length h = 8 \<and>
          toString node_ascii (frame (fst f) (snd f)) = h @ toString node_ascii (snd f)" for f
    by (simp add: node_ascii_def frame_def)
  with assms collect_frames [of fs node_ascii "[]" "[]"] show ?thesis
    by (simp add: collect_def)
qed

text \<open>
  C7, evaluated at failing inputs. A chunk that holds a frame of stdout followed by a frame
  of stderr goes to \<open>stdout\<close> as a whole, but for its first eight characters: the header and
  the payload of the second frame are in \<open>stdout\<close>, and \<open>stderr\<close> stays empty. A chunk whose
  first byte is neither 1 nor 2 goes to \<open>stdout\<close> with its header.
\<close>

theorem chunk_of_two_frames:
  "collect node_ascii [frame 1 [97] @ frame 2 [98]] =
     (''a'' @ [CHR 0x02, CHR 0x00, CHR 0x00, CHR 0x00, CHR 0x00, CHR 0x00, CHR 0x00, CHR 0x01] @ ''b'',
      []) \<and>
   demultiplexed node_ascii [(1, [97]), (2, [98])] = (''a'', ''b'') \<and>
   collect node_ascii [frame 0 [97]] =
     ([CHR 0x00, CHR 0x00, CHR 0x00, CHR 0x00, CHR 0x00, CHR 0x00, CHR 0x00, CHR 0x01] @ ''a'', []) \<and>
   demultiplexed node_ascii [(0, [97])] = (''a'', [])"
  by (simp add: collect_def onData_def frame_def demultiplexed_def node_ascii_def char_of_def)

end
